theory Spec2Isabelle
  imports Complex_Main "HOL-Library.Sublist"
begin

section \<open>JavaScript strings\<close>

text \<open>
  The front end is TypeScript. Its strings are modelled as \<^typ>\<open>string\<close>, restricted to the
  ASCII range: \<open>toLowerCase\<close> and \<open>toUpperCase\<close> act on the 26 letters, and the white space
  that \<open>trim\<close> and the regular expression class \<open>\s\<close> recognise is tab, line feed,
  vertical tab, form feed, carriage return and space.
\<close>

definition toLowerChar :: "char \<Rightarrow> char" where
  "toLowerChar c =
     (let n = (of_char c :: nat) in if 65 \<le> n \<and> n \<le> 90 then char_of (n + 32) else c)"


definition toLowerCase :: "string \<Rightarrow> string" where
  "toLowerCase s = map toLowerChar s"


definition isWhiteSpace :: "char \<Rightarrow> bool" where
  "isWhiteSpace c = (let n = (of_char c :: nat) in (9 \<le> n \<and> n \<le> 13) \<or> n = 32)"

definition trim :: "string \<Rightarrow> string" where
  "trim s = rev (dropWhile isWhiteSpace (rev (dropWhile isWhiteSpace s)))"

text \<open>\<open>Array.prototype.join\<close>: the elements separated by \<open>sep\<close>.\<close>

fun join :: "string \<Rightarrow> string list \<Rightarrow> string" where
  "join sep [] = []"
| "join sep [x] = x"
| "join sep (x # y # ys) = x @ sep @ join sep (y # ys)"

text \<open>\<open>String.prototype.startsWith\<close> and \<open>String.prototype.includes\<close>.\<close>

fun startsWith :: "string \<Rightarrow> string \<Rightarrow> bool" where
  "startsWith s [] = True"
| "startsWith [] (q # qs) = False"
| "startsWith (c # cs) (q # qs) = (c = q \<and> startsWith cs qs)"

fun includesStr :: "string \<Rightarrow> string \<Rightarrow> bool" where
  "includesStr [] q = (q = [])"
| "includesStr (c # cs) q = (startsWith (c # cs) q \<or> includesStr cs q)"

text \<open>
  Truthiness of an optional string: \<open>undefined\<close> and the empty string are falsy. \<open>orEmpty\<close>
  is \<open>x || ""\<close>.
\<close>

fun truthy :: "string option \<Rightarrow> bool" where
  "truthy None = False"
| "truthy (Some x) = (x \<noteq> [])"

fun orEmpty :: "string option \<Rightarrow> string" where
  "orEmpty None = []"
| "orEmpty (Some x) = x"

section \<open>SettingsDialog.tsx: formatHotkey\<close>










section \<open>GridVirtualizer.tsx: the displayed items\<close>

text \<open>
  \<open>ClipItem\<close> as App.tsx declares it. An optional field is an \<open>option\<close>; \<open>Text\<close> holds the
  \<open>plain\<close> string of the text variant. The item's \<open>id\<close> and \<open>clip\<close> are the fields
  \<open>item_id\<close> and \<open>item_clip\<close> here, the first because \<open>id\<close> is the identity function of
  HOL, the second because the toolbar's context has a field \<open>clip\<close> of its own.
\<close>

record 'd ClipImage =
  data :: 'd
  width :: int
  height :: int

record 'd Clip =
  Text :: "string option"
  Image :: "'d ClipImage option"

record ClipItem =
  item_id :: string
  item_clip :: "string Clip"
  created_at :: string
  category :: "string option"
  summary :: "string option"
  tags :: "string list option"

definition searchableFields :: "ClipItem \<Rightarrow> string list" where
  "searchableFields item =
     [orEmpty (Text (item_clip item)), orEmpty (summary item), orEmpty (category item)]
     @ (case tags item of None \<Rightarrow> [] | Some ts \<Rightarrow> ts)"

text \<open>
  \<open>.replace(/[-_]/g, " ")\<close> and \<open>.replace(/\s+/g, " ")\<close>; the flag of \<open>collapseFrom\<close>
  says that the previous character was white space.
\<close>

definition replaceHyphens :: "string \<Rightarrow> string" where
  "replaceHyphens s = map (\<lambda>c. if c = CHR ''-'' \<or> c = CHR ''_'' then CHR '' '' else c) s"

fun collapseFrom :: "bool \<Rightarrow> string \<Rightarrow> string" where
  "collapseFrom inRun [] = []"
| "collapseFrom inRun (c # cs) =
     (if isWhiteSpace c then (if inRun then collapseFrom True cs else CHR '' '' # collapseFrom True cs)
      else c # collapseFrom False cs)"

definition collapseWhiteSpace :: "string \<Rightarrow> string" where
  "collapseWhiteSpace s = collapseFrom False s"

definition normalizeText :: "string \<Rightarrow> string" where
  "normalizeText s = trim (collapseWhiteSpace (replaceHyphens s))"

definition matchesSearch :: "string \<Rightarrow> ClipItem \<Rightarrow> bool" where
  "matchesSearch searchQuery item =
     (let query = trim (toLowerCase searchQuery);
          searchableText = normalizeText (toLowerCase (join '' '' (searchableFields item)));
          normalizedQuery = normalizeText query;
          originalText = toLowerCase (join '' '' (searchableFields item))
      in includesStr originalText query
         \<or> includesStr searchableText normalizedQuery
         \<or> includesStr searchableText query)"

definition matchesCategories :: "string list \<Rightarrow> ClipItem \<Rightarrow> bool" where
  "matchesCategories selectedCategories item =
     (truthy (category item) \<and> orEmpty (category item) \<in> set selectedCategories)"

definition displayedItems :: "ClipItem list \<Rightarrow> string \<Rightarrow> string list \<Rightarrow> ClipItem list" where
  "displayedItems items searchQuery selectedCategories =
     (let filtered = items;
          filtered = (if trim searchQuery \<noteq> [] then filter (matchesSearch searchQuery) filtered
                      else filtered);
          filtered = (if length selectedCategories > 0
                      then filter (matchesCategories selectedCategories) filtered
                      else filtered)
      in filtered)"

section \<open>lib/utils.ts: formatDateTime\<close>

text \<open>
  The argument is \<open>string | Date | number\<close> or absent. A number is not-a-number, an
  infinity or a finite value; a \<open>Date\<close> holds its time value in milliseconds, \<open>None\<close>
  being the invalid date. \<open>new Date(number)\<close> clips the number as the language defines
  (\<open>TimeClip\<close>). Parsing a string (\<open>new Date(string)\<close>) and \<open>format\<close> of date-fns belong
  to the platform and the library: they are the parameters \<open>parse\<close> and \<open>fmt\<close>.
\<close>

datatype jsnumber = NaN | PosInfinity | NegInfinity | Finite rat

datatype jsdate = Date "int option"

datatype dateArg = Undefined | DateArg jsdate | NumArg jsnumber | StrArg string

fun falsy :: "dateArg \<Rightarrow> bool" where
  "falsy Undefined = True"
| "falsy (DateArg d) = False"
| "falsy (NumArg n) = (n = NaN \<or> n = Finite 0)"
| "falsy (StrArg s) = (s = [])"

fun newDateOfNumber :: "jsnumber \<Rightarrow> jsdate" where
  "newDateOfNumber (Finite q) =
     (if \<bar>q\<bar> > 8640000000000000 then Date None
      else Date (Some (if q \<ge> 0 then \<lfloor>q\<rfloor> else \<lceil>q\<rceil>)))"
| "newDateOfNumber n = Date None"

definition isDigit :: "char \<Rightarrow> bool" where
  "isDigit c = (let n = (of_char c :: nat) in 48 \<le> n \<and> n \<le> 57)"

text \<open>
  The regular expression \<open>/^\d{4}-\d{2}-\d{2} \d{2}:\d{2}:\d{2}$/\<close> as a template in which
  \<open>d\<close> stands for one digit and every other character for itself.
\<close>

fun matchesTemplate :: "string \<Rightarrow> string \<Rightarrow> bool" where
  "matchesTemplate [] [] = True"
| "matchesTemplate (t # ts) (c # cs) =
     ((if t = CHR ''d'' then isDigit c else c = t) \<and> matchesTemplate ts cs)"
| "matchesTemplate ts cs = False"

definition matchesDateTimeShape :: "string \<Rightarrow> bool" where
  "matchesDateTimeShape s = matchesTemplate ''dddd-dd-dd dd:dd:dd'' s"

definition toDate :: "(string \<Rightarrow> int option) \<Rightarrow> dateArg \<Rightarrow> jsdate" where
  "toDate parse dateStr =
     (case dateStr of
        DateArg d \<Rightarrow> d
      | NumArg n \<Rightarrow> newDateOfNumber n
      | StrArg s \<Rightarrow>
          (if matchesDateTimeShape s then Date (parse (s @ ''Z'')) else Date (parse s))
      | Undefined \<Rightarrow> Date None)"

definition formatPattern :: "bool \<Rightarrow> string" where
  "formatPattern is24Hour =
     (let hourFormat = (if is24Hour then ''HH'' else ''hh'');
          amPm = (if is24Hour then [] else '' a'')
      in ''MM/dd/yyyy '' @ hourFormat @ '':mm:ss'' @ amPm)"

definition formatDateTime ::
  "(string \<Rightarrow> int option) \<Rightarrow> (int \<Rightarrow> string \<Rightarrow> string) \<Rightarrow> dateArg \<Rightarrow> bool \<Rightarrow> string option"
  where
  "formatDateTime parse fmt dateStr is24Hour =
     (if falsy dateStr then None
      else case toDate parse dateStr of
             Date None \<Rightarrow> None
           | Date (Some t) \<Rightarrow> Some (fmt t (formatPattern is24Hour)))"

section \<open>App.tsx: refreshing the item list\<close>

text \<open>
  The part of the \<open>App\<close> component that holds the items. \<open>invoke\<close> reaches the back end:
  the command is logged in \<open>appInvoked\<close> and the awaited answer is the argument \<open>response\<close>,
  \<open>Inl\<close> a rejection. \<open>isLoadingItems\<close> starts undefined.
\<close>

datatype appCommand = GetItems

record app =
  items :: "ClipItem list"
  isLoadingItems :: "bool option"
  appInvoked :: "appCommand list"
  appToasts :: "string list"

definition initialApp :: app where
  "initialApp = \<lparr>items = [], isLoadingItems = None, appInvoked = [], appToasts = []\<rparr>"

definition getItems :: "string + ClipItem list \<Rightarrow> app \<Rightarrow> app" where
  "getItems response st =
     (let st1 = st\<lparr>isLoadingItems := Some True, appInvoked := appInvoked st @ [GetItems]\<rparr>;
          st2 = (case response of
                   Inr fetched \<Rightarrow> st1\<lparr>items := fetched\<rparr>
                 | Inl error \<Rightarrow> st1\<lparr>appToasts := appToasts st1 @ [''Unable to fetch items'']\<rparr>)
      in st2\<lparr>isLoadingItems := Some False\<rparr>)"

text \<open>The two listeners of the mount effect. The payload of the event is never read.\<close>

datatype appEvent = ClipSaved string | ClipDeleted string

fun onAppEvent :: "appEvent \<Rightarrow> string + ClipItem list \<Rightarrow> app \<Rightarrow> app" where
  "onAppEvent (ClipSaved payload) response st = getItems response st"
| "onAppEvent (ClipDeleted payload) response st = getItems response st"

section \<open>SettingsDialog.tsx: testHotkey\<close>

text \<open>
  The state \<open>testHotkey\<close> touches. The function is \<open>async\<close>: its result is \<open>Inr\<close> the new
  state when its promise resolves and \<open>Inl\<close> the error when it rejects. The awaited answer
  of \<open>test_global_hotkey\<close> is the argument \<open>response\<close>. A \<open>setTimeout\<close> is logged in
  \<open>timers\<close> with its delay; all that the two callbacks do is reset \<open>testResult\<close>.
\<close>

datatype TestResult = Success | Error

datatype settingsCommand = TestGlobalHotkey string

record settings =
  globalShortcut :: string
  isTesting :: bool
  testResult :: "TestResult option"
  settingsInvoked :: "settingsCommand list"
  settingsToasts :: "string list"
  timers :: "nat list"

definition testHotkey :: "string + unit \<Rightarrow> settings \<Rightarrow> string + settings" where
  "testHotkey response st =
     (if trim (globalShortcut st) = [] then
        Inr (st\<lparr>settingsToasts :=
                  settingsToasts st @ [''Please enter a hotkey combination first'']\<rparr>)
      else
        let st1 = st\<lparr>isTesting := True, testResult := None,
                      settingsInvoked := settingsInvoked st @ [TestGlobalHotkey (globalShortcut st)]\<rparr>;
            st2 = (case response of
                     Inr ok \<Rightarrow> st1\<lparr>testResult := Some Success, timers := timers st1 @ [3000]\<rparr>
                   | Inl error \<Rightarrow>
                       st1\<lparr>testResult := Some Error,
                           settingsToasts := settingsToasts st1 @ [''Invalid hotkey: '' @ error],
                           timers := timers st1 @ [5000]\<rparr>)
        in Inr (st2\<lparr>isTesting := False\<rparr>))"

section \<open>ClipToolbar.tsx and CategoryCombobox.tsx: the capture toolbar\<close>

text \<open>
  The toolbar window renders \<open>ClipToolbar\<close>, which renders one \<open>CategoryInput\<close>. The state
  of both components is one record: the four \<open>useState\<close> cells of \<open>ClipToolbar\<close>, the three
  of \<open>CategoryInput\<close>, whether the text field has the focus
  (\<open>document.activeElement === inputRef.current\<close>), the values of the effect dependencies
  at the last render whose effects ran, and what the component did to the outside: the
  commands passed to \<open>invoke\<close>, the \<open>submit_clip\<close> promises not yet settled, and the
  alerts shown. The \<open>value\<close> property of \<open>CategoryInput\<close> is \<open>userCategory\<close> and its
  \<open>aiSuggestion\<close> property is \<open>clipData?.suggested_category\<close>.
\<close>

record ClipContext =
  suggested_category :: "string option"
  clip :: "nat list Clip"

datatype toolbarCommand = SubmitClip string "nat list Clip option" | CloseToolbarWindow

record toolbar =
  clipData :: "ClipContext option"
  userCategory :: string
  isLoadingClipData :: bool
  isSaving :: bool
  inputValue :: string
  isInitialized :: bool
  showInput :: bool
  inputFocused :: bool
  renderedValue :: string
  renderedSuggestion :: "string option"
  renderedInputValue :: string
  invoked :: "toolbarCommand list"
  pendingSaves :: nat
  alerts :: "string list"

definition categories :: "string list" where
  "categories =
     [''code_snippet'', ''technical_advice'', ''documentation'', ''url'', ''communication'',
      ''notes'', ''reference'', ''creative'', ''business'', ''quotes'', ''academic'', ''errors'',
      ''other'']"

definition initialToolbar :: toolbar where
  "initialToolbar =
     \<lparr>clipData = None, userCategory = [], isLoadingClipData = True, isSaving = False,
      inputValue = [], isInitialized = False, showInput = False, inputFocused = False,
      renderedValue = [], renderedSuggestion = None, renderedInputValue = [],
      invoked = [], pendingSaves = 0, alerts = []\<rparr>"

definition suggestion :: "toolbar \<Rightarrow> string option" where
  "suggestion st = (case clipData st of None \<Rightarrow> None | Some ctx \<Rightarrow> suggested_category ctx)"

subsection \<open>ClipToolbar\<close>

text \<open>
  The listener of \<open>clip-data\<close> is registered by an effect whose dependency list is empty, so
  it is the closure of the first render for as long as the component is mounted: the
  \<open>userCategory\<close> it tests is the constant of that render, the initial state, while the
  setters act on the current state.
\<close>

definition onClipData :: "ClipContext \<Rightarrow> toolbar \<Rightarrow> toolbar" where
  "onClipData payload st =
     (let st1 = st\<lparr>clipData := Some payload, isLoadingClipData := False\<rparr> in
      if truthy (suggested_category payload) \<and> userCategory initialToolbar = []
      then st1\<lparr>userCategory := orEmpty (suggested_category payload)\<rparr>
      else st1)"

text \<open>
  \<open>handleSave\<close> up to its \<open>await\<close>, and \<open>saveSettled\<close> from there: the \<open>catch\<close> and the
  \<open>finally\<close>, run when the promise of \<open>submit_clip\<close> settles (\<open>Inl\<close> a rejection). The
  command carries the clip that \<open>JSON.stringify\<close> serialises.
\<close>

definition submittedCategory :: "toolbar \<Rightarrow> string" where
  "submittedCategory st =
     (if trim (userCategory st) \<noteq> [] then trim (userCategory st)
      else if truthy (suggestion st) then orEmpty (suggestion st)
      else ''Other'')"

definition handleSave :: "toolbar \<Rightarrow> toolbar" where
  "handleSave st =
     st\<lparr>isSaving := True,
        invoked := invoked st @ [SubmitClip (submittedCategory st) (map_option clip (clipData st))],
        pendingSaves := Suc (pendingSaves st)\<rparr>"

definition saveSettled :: "string + unit \<Rightarrow> toolbar \<Rightarrow> toolbar" where
  "saveSettled response st =
     (let st1 = (case response of
                   Inr ok \<Rightarrow> st
                 | Inl error \<Rightarrow> st\<lparr>alerts := alerts st @ [''Failed to save clip: '' @ error]\<rparr>)
      in st1\<lparr>isSaving := False, pendingSaves := pendingSaves st - 1\<rparr>)"

definition handleCancel :: "toolbar \<Rightarrow> toolbar" where
  "handleCancel st = st\<lparr>invoked := invoked st @ [CloseToolbarWindow]\<rparr>"

definition handleKeyDown :: "string \<Rightarrow> bool \<Rightarrow> toolbar \<Rightarrow> toolbar" where
  "handleKeyDown key shiftKey st =
     (if key = ''Enter'' \<and> \<not> shiftKey then handleSave st
      else if key = ''Escape'' then handleCancel st
      else st)"

definition saveButtonDisabled :: "toolbar \<Rightarrow> bool" where
  "saveButtonDisabled st = (isSaving st \<or> \<not> truthy (suggestion st))"

definition cancelButtonDisabled :: "toolbar \<Rightarrow> bool" where
  "cancelButtonDisabled st = isSaving st"

subsection \<open>CategoryInput\<close>

definition handleInputChange :: "string \<Rightarrow> toolbar \<Rightarrow> toolbar" where
  "handleInputChange newValue st = st\<lparr>inputValue := newValue, userCategory := newValue\<rparr>"

definition matchingCategory :: "string \<Rightarrow> string option" where
  "matchingCategory input =
     find (\<lambda>cat. startsWith (toLowerCase cat) (toLowerCase input)
                 \<and> toLowerCase cat \<noteq> toLowerCase input) categories"

definition handleInputBlur :: "toolbar \<Rightarrow> toolbar" where
  "handleInputBlur st =
     (if truthy (suggestion st) \<and> Some (inputValue st) = suggestion st
      then st\<lparr>showInput := False\<rparr> else st)"

text \<open>
  \<open>handleKeyDown\<close> of \<open>CategoryInput\<close>: Tab completes a category, Escape on the untouched
  suggestion goes back to the badge and blurs the field (which runs the blur handler), and
  every other key is passed to \<open>handleKeyDown\<close> of \<open>ClipToolbar\<close>.
\<close>

definition inputKeyDown :: "string \<Rightarrow> bool \<Rightarrow> toolbar \<Rightarrow> toolbar" where
  "inputKeyDown key shiftKey st =
     (let completion = (if key = ''Tab'' \<and> inputValue st \<noteq> []
                        then matchingCategory (inputValue st) else None)
      in case completion of
           Some matching \<Rightarrow> st\<lparr>inputValue := matching, userCategory := matching\<rparr>
         | None \<Rightarrow>
             if key = ''Escape'' \<and> truthy (suggestion st) \<and> Some (inputValue st) = suggestion st
             then handleInputBlur (st\<lparr>showInput := False, inputFocused := False\<rparr>)
             else handleKeyDown key shiftKey st)"

definition handleBadgeClick :: "toolbar \<Rightarrow> toolbar" where
  "handleBadgeClick st = st\<lparr>showInput := True\<rparr>"

text \<open>
  The three effects of \<open>CategoryInput\<close>, each as the condition under which it acts at a
  render. The first lists \<open>onChange\<close>, a new function at every render of the parent, among
  its dependencies; its body acts only under a condition on the other three, and acting
  sets \<open>isInitialized\<close>, so it acts exactly at the renders where the condition holds. The
  second runs when \<open>value\<close> differs from the last render, and acts unless the text field
  has the focus; the field exists only while \<open>showInput\<close> holds. The third runs when
  \<open>aiSuggestion\<close> or \<open>inputValue\<close> differs from the last render, and sets \<open>showInput\<close>
  to \<open>inputShown\<close>.
\<close>

definition initializeEffect :: "toolbar \<Rightarrow> bool" where
  "initializeEffect st =
     (truthy (suggestion st) \<and> \<not> isInitialized st \<and> userCategory st = [])"

definition syncEffect :: "toolbar \<Rightarrow> bool" where
  "syncEffect st =
     (userCategory st \<noteq> renderedValue st \<and> userCategory st \<noteq> inputValue st
      \<and> \<not> (inputFocused st \<and> showInput st))"

definition toggleEffect :: "toolbar \<Rightarrow> bool" where
  "toggleEffect st =
     (suggestion st \<noteq> renderedSuggestion st \<or> inputValue st \<noteq> renderedInputValue st)"

definition inputShown :: "toolbar \<Rightarrow> bool" where
  "inputShown st =
     (if \<not> truthy (suggestion st) \<and> inputValue st = [] then False
      else Some (inputValue st) \<noteq> suggestion st)"

text \<open>
  One render and its effects: the effects read the values of the render and queue their
  updates, which are applied together afterwards; of two updates of one cell the later
  wins. The focus is lost when the text field is not rendered.
\<close>

definition runEffects :: "toolbar \<Rightarrow> toolbar" where
  "runEffects st =
     st\<lparr>inputValue := (if syncEffect st then userCategory st
                       else if initializeEffect st then orEmpty (suggestion st)
                       else inputValue st),
        userCategory := (if initializeEffect st then orEmpty (suggestion st) else userCategory st),
        isInitialized := (isInitialized st \<or> initializeEffect st),
        showInput := (if toggleEffect st then inputShown st else showInput st),
        inputFocused := (inputFocused st \<and> showInput st),
        renderedValue := userCategory st,
        renderedSuggestion := suggestion st,
        renderedInputValue := inputValue st\<rparr>"

text \<open>
  React renders again as long as an effect has changed the state. The fourth render
  changes nothing any more, which is what makes \<open>settle\<close> total.
\<close>

lemma runEffects_suggestion: "suggestion (runEffects st) = suggestion st"
  by (simp add: runEffects_def suggestion_def)

lemma runEffects_rendered:
  "renderedValue (runEffects st) = userCategory st"
  "renderedSuggestion (runEffects st) = suggestion st"
  "renderedInputValue (runEffects st) = inputValue st"
  "inputFocused (runEffects st) = (inputFocused st \<and> showInput st)"
  by (simp_all add: runEffects_def)

lemma runEffects_fixed:
  "clipData (runEffects st) = clipData st"
  "isLoadingClipData (runEffects st) = isLoadingClipData st"
  "isSaving (runEffects st) = isSaving st"
  "invoked (runEffects st) = invoked st"
  "pendingSaves (runEffects st) = pendingSaves st"
  "alerts (runEffects st) = alerts st"
  by (simp_all add: runEffects_def)

lemma runEffects_cells:
  "userCategory (runEffects st) =
     (if initializeEffect st then orEmpty (suggestion st) else userCategory st)"
  "isInitialized (runEffects st) = (isInitialized st \<or> initializeEffect st)"
  "inputValue (runEffects st) =
     (if syncEffect st then userCategory st
      else if initializeEffect st then orEmpty (suggestion st)
      else inputValue st)"
  "showInput (runEffects st) = (if toggleEffect st then inputShown st else showInput st)"
  by (simp_all add: runEffects_def)

lemma runEffects_initialized: "\<not> initializeEffect (runEffects st)"
  unfolding initializeEffect_def runEffects_suggestion
  by (auto simp add: runEffects_cells initializeEffect_def)

lemma runEffects_stable:
  "runEffects (runEffects (runEffects (runEffects st))) = runEffects (runEffects (runEffects st))"
proof -
  define s1 where "s1 = runEffects st"
  define s2 where "s2 = runEffects s1"
  define s3 where "s3 = runEffects s2"
  define s4 where "s4 = runEffects s3"
  have n1: "\<not> initializeEffect s1" and n2: "\<not> initializeEffect s2"
    and n3: "\<not> initializeEffect s3"
    unfolding s1_def s2_def s3_def by (rule runEffects_initialized)+
  have v2: "userCategory s2 = userCategory s1" and v3: "userCategory s3 = userCategory s2"
    and v4: "userCategory s4 = userCategory s3"
    using n1 n2 n3 by (simp_all add: s2_def s3_def s4_def runEffects_cells)
  have i4: "isInitialized s4 = isInitialized s3"
    using n3 by (simp add: s4_def runEffects_cells)
  have g3: "suggestion s3 = suggestion s2" and g4: "suggestion s4 = suggestion s3"
    by (simp_all add: s3_def s4_def runEffects_suggestion)
  have r2: "renderedInputValue s2 = inputValue s1" "renderedSuggestion s2 = suggestion s2"
    "inputFocused s2 = (inputFocused s1 \<and> showInput s1)"
    by (simp_all add: s2_def runEffects_rendered runEffects_suggestion)
  have r3: "renderedValue s3 = userCategory s3" "renderedInputValue s3 = inputValue s2"
    "renderedSuggestion s3 = suggestion s3" "inputFocused s3 = (inputFocused s2 \<and> showInput s2)"
    using v3 by (simp_all add: s3_def runEffects_rendered runEffects_suggestion)
  have r4: "renderedValue s4 = userCategory s3" "renderedInputValue s4 = inputValue s3"
    "renderedSuggestion s4 = suggestion s3" "inputFocused s4 = (inputFocused s3 \<and> showInput s3)"
    by (simp_all add: s4_def runEffects_rendered)
  have "renderedValue s2 = userCategory s2"
    using v2 by (simp add: s2_def runEffects_rendered)
  then have y2: "\<not> syncEffect s2" and y3: "\<not> syncEffect s3"
    using r3 by (simp_all add: syncEffect_def)
  have iv3: "inputValue s3 = inputValue s2" and iv4: "inputValue s4 = inputValue s3"
    using n2 n3 y2 y3 by (simp_all add: s3_def s4_def runEffects_cells)
  have t3: "\<not> toggleEffect s3"
    using r3 iv3 by (simp add: toggleEffect_def)
  have sh4: "showInput s4 = showInput s3"
    using t3 by (simp add: s4_def runEffects_cells)
  have fo4: "inputFocused s4 = inputFocused s3"
  proof (cases "inputFocused s3")
    case False
    then show ?thesis by (simp add: r4)
  next
    case True
    then have a: "inputFocused s2" "showInput s2" by (simp_all add: r3)
    then have b: "inputFocused s1" "showInput s1" by (simp_all add: r2)
    then have "\<not> syncEffect s1" by (simp add: syncEffect_def)
    then have "inputValue s2 = inputValue s1"
      using n1 by (simp add: s2_def runEffects_cells)
    then have "\<not> toggleEffect s2"
      using r2 by (simp add: toggleEffect_def)
    then have "showInput s3 = showInput s2"
      by (simp add: s3_def runEffects_cells)
    with a True show ?thesis by (simp add: r4)
  qed
  have f4: "clipData s4 = clipData s3" "isLoadingClipData s4 = isLoadingClipData s3"
    "isSaving s4 = isSaving s3" "invoked s4 = invoked s3" "pendingSaves s4 = pendingSaves s3"
    "alerts s4 = alerts s3" "toolbar.more s4 = toolbar.more s3"
    by (simp_all add: s4_def runEffects_def)
  have "s4 = s3"
    by (rule toolbar.equality) (simp_all add: v4 i4 iv4 sh4 fo4 f4 r4 r3 iv3)
  then show ?thesis by (simp add: s1_def s2_def s3_def s4_def)
qed

function settle :: "toolbar \<Rightarrow> toolbar" where
  "settle st = (if runEffects st = st then st else settle (runEffects st))"
  by pat_completeness auto
termination
proof (relation "measure (\<lambda>st. if runEffects st = st then 0
                   else if runEffects (runEffects st) = runEffects st then 1
                   else if runEffects (runEffects (runEffects st)) = runEffects (runEffects st)
                   then 2 else 3)")
  fix st :: toolbar
  assume "runEffects st \<noteq> st"
  then show "(runEffects st, st) \<in> measure (\<lambda>st. if runEffects st = st then 0
                   else if runEffects (runEffects st) = runEffects st then 1
                   else if runEffects (runEffects (runEffects st)) = runEffects (runEffects st)
                   then 2 else 3)"
    using runEffects_stable [of st] by auto
qed simp

declare settle.simps [simp del]

subsection \<open>What can happen to the toolbar\<close>

text \<open>
  The events the mounted toolbar can receive: the back end emits \<open>clip-data\<close>; the user
  clicks one of the three buttons, edits the text field, presses a key in it, gives it the
  focus or takes it away; a pending \<open>submit_clip\<close> settles. A click reaches a button that
  is rendered and not disabled; the text field takes input and keys while it is rendered
  and has the focus. \<open>canOccur\<close> says so from the JSX.
\<close>

datatype toolbarEvent =
    ClipDataEmitted ClipContext
  | SaveClicked
  | CancelClicked
  | BadgeClicked
  | InputChanged string
  | KeyPressed string bool
  | InputFocusGained
  | InputBlurred
  | SubmitSettled "string + unit"

fun canOccur :: "toolbarEvent \<Rightarrow> toolbar \<Rightarrow> bool" where
  "canOccur (ClipDataEmitted payload) st = True"
| "canOccur SaveClicked st = (\<not> saveButtonDisabled st)"
| "canOccur CancelClicked st = (\<not> cancelButtonDisabled st)"
| "canOccur BadgeClicked st = (\<not> showInput st \<and> truthy (suggestion st))"
| "canOccur (InputChanged newValue) st = (showInput st \<and> inputFocused st)"
| "canOccur (KeyPressed key shiftKey) st = (showInput st \<and> inputFocused st)"
| "canOccur InputFocusGained st = showInput st"
| "canOccur InputBlurred st = (showInput st \<and> inputFocused st)"
| "canOccur (SubmitSettled response) st = (pendingSaves st > 0)"

fun handler :: "toolbarEvent \<Rightarrow> toolbar \<Rightarrow> toolbar" where
  "handler (ClipDataEmitted payload) st = onClipData payload st"
| "handler SaveClicked st = handleSave st"
| "handler CancelClicked st = handleCancel st"
| "handler BadgeClicked st = handleBadgeClick st"
| "handler (InputChanged newValue) st = handleInputChange newValue st"
| "handler (KeyPressed key shiftKey) st = inputKeyDown key shiftKey st"
| "handler InputFocusGained st = st\<lparr>inputFocused := True\<rparr>"
| "handler InputBlurred st = handleInputBlur (st\<lparr>inputFocused := False\<rparr>)"
| "handler (SubmitSettled response) st = saveSettled response st"

text \<open>
  One event: its handler, then the renders and effects it causes. The timeout that
  \<open>handleBadgeClick\<close> sets fires afterwards and focuses the text field if it is rendered.
\<close>

definition step :: "toolbarEvent \<Rightarrow> toolbar \<Rightarrow> toolbar" where
  "step ev st =
     (if \<not> canOccur ev st then st
      else let st1 = settle (handler ev st) in
           if ev = BadgeClicked then st1\<lparr>inputFocused := showInput st1\<rparr> else st1)"

definition run :: "toolbarEvent list \<Rightarrow> toolbar" where
  "run evs = foldl (\<lambda>st ev. step ev st) initialToolbar evs"

definition submitted :: "toolbar \<Rightarrow> toolbarCommand list" where
  "submitted st = filter (\<lambda>c. c \<noteq> CloseToolbarWindow) (invoked st)"

subsection \<open>An invariant of the toolbar\<close>

text \<open>
  What holds of the toolbar between two events: the effects have nothing left to do; an
  empty \<open>userCategory\<close> comes with an empty text field; and the text field is not
  rendered while there is neither a suggestion nor any text in it.
\<close>

definition emptyValueEmptyInput :: "toolbar \<Rightarrow> bool" where
  "emptyValueEmptyInput st = (userCategory st = [] \<longrightarrow> inputValue st = [])"

definition hiddenWhenNothing :: "toolbar \<Rightarrow> bool" where
  "hiddenWhenNothing st =
     (\<not> truthy (suggestion st) \<and> inputValue st = [] \<longrightarrow> \<not> showInput st)"

definition toolbarInvariant :: "toolbar \<Rightarrow> bool" where
  "toolbarInvariant st =
     (runEffects st = st \<and> emptyValueEmptyInput st \<and> hiddenWhenNothing st)"

section \<open>Example inputs\<close>

text \<open>Concrete values at which the properties below are evaluated.\<close>

definition noteItem :: ClipItem where
  "noteItem =
     \<lparr>item_id = ''1'', item_clip = \<lparr>Text = Some ''Hello-World'', Image = None\<rparr>,
      created_at = ''2024-01-02 03:04:05'', category = Some ''notes'', summary = None,
      tags = Some [''greeting'']\<rparr>"

definition linkItem :: ClipItem where
  "linkItem =
     \<lparr>item_id = ''2'', item_clip = \<lparr>Text = Some ''https://example.com'', Image = None\<rparr>,
      created_at = ''2024-01-02 03:04:06'', category = Some ''url'', summary = None,
      tags = None\<rparr>"

text \<open>
  A parser that knows one UTC timestamp, and a formatter that names the two instants it
  knows in front of the pattern.
\<close>

definition parseUtc :: "string \<Rightarrow> int option" where
  "parseUtc s = (if s = ''2024-01-02 03:04:05Z'' then Some 1704164645000 else None)"

definition showKnown :: "int \<Rightarrow> string \<Rightarrow> string" where
  "showKnown t pattern =
     (if t = 1704164645000 then ''2024-01-02T03:04:05.000Z as '' @ pattern
      else if t = 1500 then ''1970-01-01T00:00:01.500Z as '' @ pattern
      else pattern)"

definition exampleSettings :: settings where
  "exampleSettings =
     \<lparr>globalShortcut = ''CommandOrControl+Shift+C'', isTesting = False, testResult = None,
      settingsInvoked = [], settingsToasts = [], timers = []\<rparr>"

definition urlContext :: ClipContext where
  "urlContext =
     \<lparr>suggested_category = Some ''url'',
      clip = \<lparr>Text = Some ''https://example.com'', Image = None\<rparr>\<rparr>"

text \<open>The same clip with another suggestion, and a clip whose suggestion is still awaited.\<close>

definition resuggestedContext :: ClipContext where
  "resuggestedContext =
     \<lparr>suggested_category = Some ''reference'',
      clip = \<lparr>Text = Some ''https://example.com'', Image = None\<rparr>\<rparr>"

definition pendingContext :: ClipContext where
  "pendingContext =
     \<lparr>suggested_category = None, clip = \<lparr>Text = Some ''x = 1'', Image = None\<rparr>\<rparr>"

section \<open>Properties of formatHotkey\<close>












section \<open>Properties of the displayed items\<close>

lemma dropWhile_all_iff: "(\<forall>c \<in> set (dropWhile P s). P c) \<longleftrightarrow> dropWhile P s = []"
proof
  assume a: "\<forall>c \<in> set (dropWhile P s). P c"
  show "dropWhile P s = []"
  proof (rule ccontr)
    assume n: "dropWhile P s \<noteq> []"
    then have "\<not> P (hd (dropWhile P s))" by (rule hd_dropWhile)
    moreover have "hd (dropWhile P s) \<in> set (dropWhile P s)" using n by (rule hd_in_set)
    ultimately show False using a by blast
  qed
next
  assume e: "dropWhile P s = []"
  show "\<forall>c \<in> set (dropWhile P s). P c" unfolding e by simp
qed

lemma trim_empty_iff: "trim s = [] \<longleftrightarrow> (\<forall>c \<in> set s. isWhiteSpace c)"
  by (simp add: trim_def dropWhile_eq_Nil_conv dropWhile_all_iff)

text \<open>
  Claim C8. For every item list, search query and list of selected categories, the
  displayed items are a subsequence of the given items (same order, nothing added or
  repeated); and when the query is empty or consists of white space only and no category
  is selected, the displayed items are the given items.
\<close>

theorem displayedItems_subsequence:
  "subseq (displayedItems allItems searchQuery selectedCategories) allItems
   \<and> ((\<forall>c \<in> set searchQuery. isWhiteSpace c) \<and> selectedCategories = []
        \<longrightarrow> displayedItems allItems searchQuery selectedCategories = allItems)"
proof
  have "subseq (filter P (filter Q allItems)) allItems" for P Q :: "ClipItem \<Rightarrow> bool"
    by (rule subseq_order.trans [OF subseq_filter_left subseq_filter_left])
  then show "subseq (displayedItems allItems searchQuery selectedCategories) allItems"
    by (simp add: displayedItems_def Let_def)
next
  show "(\<forall>c \<in> set searchQuery. isWhiteSpace c) \<and> selectedCategories = []
        \<longrightarrow> displayedItems allItems searchQuery selectedCategories = allItems"
    by (simp add: displayedItems_def Let_def trim_empty_iff)
qed

theorem displayedItems_subsequence_witness:
  "trim ''  '' = []
   \<and> displayedItems [noteItem, linkItem] ''  '' [] = [noteItem, linkItem]
   \<and> displayedItems [noteItem, linkItem] ''hello world'' [] = [noteItem]
   \<and> subseq [noteItem] [noteItem, linkItem]"
proof -
  have w: "\<forall>c \<in> set ''  ''. isWhiteSpace c" by code_simp
  then have t: "trim ''  '' = []" by (simp only: trim_empty_iff)
  have e: "displayedItems [noteItem, linkItem] ''hello world'' [] = [noteItem]" by code_simp
  from displayedItems_subsequence [of "[noteItem, linkItem]" "''hello world''" "[]"] e
  have s: "subseq [noteItem] [noteItem, linkItem]" by simp
  from displayedItems_subsequence [of "[noteItem, linkItem]" "''  ''" "[]"] w
  have "displayedItems [noteItem, linkItem] ''  '' [] = [noteItem, linkItem]" by blast
  with t e s show ?thesis by blast
qed

section \<open>Properties of formatDateTime\<close>

text \<open>
  Claim C9. The result of \<open>formatDateTime\<close> for every kind of argument. It is \<open>undefined\<close>
  for an absent argument, for the empty string, for the numbers zero and not-a-number,
  and whenever the date is invalid: an invalid \<open>Date\<close> object, an infinite number or one
  beyond 8.64e15 milliseconds, a string that does not parse. In every other case it is
  the date formatted with the pattern of the hour style: the \<open>Date\<close> object itself, the
  number cut to whole milliseconds, the parsed string. A string of the shape
  \<open>YYYY-MM-DD HH:MM:SS\<close> is parsed with \<open>Z\<close> appended, that is as UTC, and every other
  string as it stands.
\<close>

theorem formatDateTime_by_argument:
  "formatDateTime parse fmt Undefined is24Hour = None
   \<and> formatDateTime parse fmt (DateArg (Date d)) is24Hour =
       (case d of None \<Rightarrow> None | Some t \<Rightarrow> Some (fmt t (formatPattern is24Hour)))
   \<and> formatDateTime parse fmt (NumArg NaN) is24Hour = None
   \<and> formatDateTime parse fmt (NumArg PosInfinity) is24Hour = None
   \<and> formatDateTime parse fmt (NumArg NegInfinity) is24Hour = None
   \<and> formatDateTime parse fmt (NumArg (Finite q)) is24Hour =
       (if q = 0 \<or> \<bar>q\<bar> > 8640000000000000 then None
        else Some (fmt (if q \<ge> 0 then \<lfloor>q\<rfloor> else \<lceil>q\<rceil>) (formatPattern is24Hour)))
   \<and> formatDateTime parse fmt (StrArg s) is24Hour =
       (if s = [] then None
        else case parse (if matchesDateTimeShape s then s @ ''Z'' else s) of
               None \<Rightarrow> None
             | Some t \<Rightarrow> Some (fmt t (formatPattern is24Hour)))
   \<and> formatPattern is24Hour =
       (if is24Hour then ''MM/dd/yyyy HH:mm:ss'' else ''MM/dd/yyyy hh:mm:ss a'')"
  by (simp add: formatDateTime_def toDate_def formatPattern_def split: option.splits)

theorem formatDateTime_by_argument_witness:
  "formatDateTime parseUtc showKnown (StrArg ''2024-01-02 03:04:05'') False
     = Some ''2024-01-02T03:04:05.000Z as MM/dd/yyyy hh:mm:ss a''
   \<and> formatDateTime parseUtc showKnown (StrArg ''yesterday'') False = None
   \<and> formatDateTime parseUtc showKnown (StrArg []) False = None
   \<and> formatDateTime parseUtc showKnown (NumArg (Finite 1704164645000)) True
     = Some ''2024-01-02T03:04:05.000Z as MM/dd/yyyy HH:mm:ss''
   \<and> formatDateTime parseUtc showKnown (NumArg (Finite (3001 / 2))) True
     = Some ''1970-01-01T00:00:01.500Z as MM/dd/yyyy HH:mm:ss''
   \<and> formatDateTime parseUtc showKnown (NumArg (Finite 0)) True = None
   \<and> formatDateTime parseUtc showKnown (NumArg (Finite 8640000000000001)) True = None
   \<and> formatDateTime parseUtc showKnown (DateArg (Date (Some 1500))) True
     = Some ''1970-01-01T00:00:01.500Z as MM/dd/yyyy HH:mm:ss''
   \<and> formatDateTime parseUtc showKnown (DateArg (Date None)) True = None"
proof -
  have m: "matchesDateTimeShape ''2024-01-02 03:04:05''"
    and n: "\<not> matchesDateTimeShape ''yesterday''" by code_simp+
  have p: "parseUtc (''2024-01-02 03:04:05'' @ ''Z'') = Some 1704164645000"
    and y: "parseUtc ''yesterday'' = None" by code_simp+
  have k: "showKnown 1704164645000 ''MM/dd/yyyy hh:mm:ss a''
             = ''2024-01-02T03:04:05.000Z as MM/dd/yyyy hh:mm:ss a''"
    "showKnown 1704164645000 ''MM/dd/yyyy HH:mm:ss''
             = ''2024-01-02T03:04:05.000Z as MM/dd/yyyy HH:mm:ss''"
    "showKnown 1500 ''MM/dd/yyyy HH:mm:ss'' = ''1970-01-01T00:00:01.500Z as MM/dd/yyyy HH:mm:ss''"
    by code_simp+
  have f: "\<lfloor>3001 / 2 :: rat\<rfloor> = 1500" by code_simp
  note a = formatDateTime_by_argument
    [of parseUtc showKnown False None "0" "''2024-01-02 03:04:05''"]
  note b = formatDateTime_by_argument [of parseUtc showKnown False None "0" "''yesterday''"]
  note c = formatDateTime_by_argument [of parseUtc showKnown False None "0" "[]"]
  note d = formatDateTime_by_argument [of parseUtc showKnown True "Some 1500" "1704164645000" "[]"]
  note e = formatDateTime_by_argument [of parseUtc showKnown True None "3001 / 2" "[]"]
  note g = formatDateTime_by_argument [of parseUtc showKnown True None "8640000000000001" "[]"]
  note z = formatDateTime_by_argument [of parseUtc showKnown True None "0" "[]"]
  have 1: "formatDateTime parseUtc showKnown (StrArg ''2024-01-02 03:04:05'') False
     = Some ''2024-01-02T03:04:05.000Z as MM/dd/yyyy hh:mm:ss a''"
    using a m p k(1) by simp
  have 2: "formatDateTime parseUtc showKnown (StrArg ''yesterday'') False = None"
    using b n y by simp
  have 3: "formatDateTime parseUtc showKnown (StrArg []) False = None"
    using c by simp
  have 4: "formatDateTime parseUtc showKnown (NumArg (Finite 1704164645000)) True
     = Some ''2024-01-02T03:04:05.000Z as MM/dd/yyyy HH:mm:ss''"
    using d k(2) by simp
  have 5: "formatDateTime parseUtc showKnown (NumArg (Finite (3001 / 2))) True
     = Some ''1970-01-01T00:00:01.500Z as MM/dd/yyyy HH:mm:ss''"
    using e k(3) f by simp
  have 6: "formatDateTime parseUtc showKnown (NumArg (Finite 0)) True = None"
    using z by simp
  have 7: "formatDateTime parseUtc showKnown (NumArg (Finite 8640000000000001)) True = None"
    using g by simp
  have 8: "formatDateTime parseUtc showKnown (DateArg (Date (Some 1500))) True
     = Some ''1970-01-01T00:00:01.500Z as MM/dd/yyyy HH:mm:ss''"
    using d k(3) by simp
  have 9: "formatDateTime parseUtc showKnown (DateArg (Date None)) True = None"
    using e by simp
  from 1 2 3 4 5 6 7 8 9 show ?thesis by blast
qed

section \<open>Properties of the item refresh\<close>

text \<open>
  Claim C6. On every \<open>clip-saved\<close> and every \<open>clip-deleted\<close> event the application does
  what \<open>getItems\<close> does, whatever the payload of the event: it invokes \<open>get_items\<close> once
  and, when the fetch succeeds, replaces its items by the fetched list. When the fetch
  fails there is no list to show and the items stay as they were.
\<close>

theorem refresh_refetches_items:
  "onAppEvent ev response st = getItems response st
   \<and> appInvoked (onAppEvent ev response st) = appInvoked st @ [GetItems]
   \<and> items (onAppEvent ev response st) =
       (case response of Inr fetched \<Rightarrow> fetched | Inl error \<Rightarrow> items st)"
  by (cases ev; cases response) (simp_all add: getItems_def Let_def)

theorem refresh_refetches_items_witness:
  "items (onAppEvent (ClipDeleted ''1'') (Inr [linkItem]) (initialApp\<lparr>items := [noteItem, linkItem]\<rparr>))
     = [linkItem]
   \<and> items (onAppEvent (ClipSaved ''2'') (Inr [linkItem]) initialApp) = [linkItem]"
  using refresh_refetches_items [of "ClipDeleted ''1''" "Inr [linkItem]"
      "initialApp\<lparr>items := [noteItem, linkItem]\<rparr>"]
    refresh_refetches_items [of "ClipSaved ''2''" "Inr [linkItem]" initialApp]
  by simp

section \<open>Properties of testHotkey\<close>

text \<open>
  Claim C7. \<open>testHotkey\<close> never rejects: whatever the back end answers, its promise
  resolves. For a binding that is not blank it invokes \<open>test_global_hotkey\<close> with the
  binding, and \<open>testResult\<close> becomes \<open>success\<close> when the command resolves and \<open>error\<close>, with
  a toast that carries the error, when it rejects. A blank binding is refused with a toast
  and the command is not invoked.
\<close>

theorem testHotkey_outcomes:
  "\<exists>st'. testHotkey response st = Inr st'
     \<and> isTesting st' = (isTesting st \<and> trim (globalShortcut st) = [])
     \<and> (if trim (globalShortcut st) = [] then
          settingsInvoked st' = settingsInvoked st \<and> testResult st' = testResult st
          \<and> settingsToasts st' = settingsToasts st @ [''Please enter a hotkey combination first'']
        else
          settingsInvoked st' = settingsInvoked st @ [TestGlobalHotkey (globalShortcut st)]
          \<and> (case response of
                Inr ok \<Rightarrow> testResult st' = Some Success \<and> settingsToasts st' = settingsToasts st
              | Inl error \<Rightarrow>
                  testResult st' = Some Error
                  \<and> settingsToasts st' = settingsToasts st @ [''Invalid hotkey: '' @ error]))"
  by (cases response) (simp_all add: testHotkey_def Let_def)

theorem testHotkey_outcomes_witness:
  "trim (globalShortcut exampleSettings) \<noteq> []
   \<and> (\<exists>st'. testHotkey (Inl ''HotKey already registered'') exampleSettings = Inr st'
         \<and> testResult st' = Some Error
         \<and> settingsInvoked st' = [TestGlobalHotkey ''CommandOrControl+Shift+C'']
         \<and> settingsToasts st' = [''Invalid hotkey: HotKey already registered''])"
proof -
  have t: "trim (globalShortcut exampleSettings) \<noteq> []" by code_simp
  have g: "globalShortcut exampleSettings = ''CommandOrControl+Shift+C''"
    and i: "settingsInvoked exampleSettings = []" and o: "settingsToasts exampleSettings = []"
    by (simp_all add: exampleSettings_def)
  from testHotkey_outcomes [of "Inl ''HotKey already registered''" exampleSettings] t
  obtain st' where "testHotkey (Inl ''HotKey already registered'') exampleSettings = Inr st'"
    and "testResult st' = Some Error"
    and "settingsInvoked st' = settingsInvoked exampleSettings
           @ [TestGlobalHotkey (globalShortcut exampleSettings)]"
    and "settingsToasts st' = settingsToasts exampleSettings
           @ [''Invalid hotkey: '' @ ''HotKey already registered'']"
    by auto
  then show ?thesis using t g i o by simp
qed

section \<open>Properties of the capture toolbar\<close>

subsection \<open>Renders settle\<close>

lemma settle_fixpoint: "runEffects st = st \<Longrightarrow> settle st = st"
  using settle.simps [of st] by simp

lemma settle_runEffects: "settle (runEffects st) = settle st"
  using settle.simps [of st] by (cases "runEffects st = st") simp_all

lemma settle_three: "settle st = runEffects (runEffects (runEffects st))"
proof -
  have "settle st = settle (runEffects (runEffects (runEffects st)))"
    by (simp add: settle_runEffects)
  also have "\<dots> = runEffects (runEffects (runEffects st))"
    by (rule settle_fixpoint) (rule runEffects_stable)
  finally show ?thesis .
qed

lemma settle_settled: "runEffects (settle st) = settle st"
  by (simp add: settle_three runEffects_stable)

lemma settle_fixed:
  "clipData (settle st) = clipData st"
  "isLoadingClipData (settle st) = isLoadingClipData st"
  "isSaving (settle st) = isSaving st"
  "invoked (settle st) = invoked st"
  "pendingSaves (settle st) = pendingSaves st"
  "alerts (settle st) = alerts st"
  "suggestion (settle st) = suggestion st"
  by (simp_all add: settle_three runEffects_fixed runEffects_suggestion)

lemma invoked_step:
  "invoked (step ev st) = (if canOccur ev st then invoked (handler ev st) else invoked st)"
  by (simp add: step_def Let_def settle_fixed)

subsection \<open>The invariant holds between events\<close>

lemma settled_rendered:
  assumes "runEffects st = st"
  shows "renderedValue st = userCategory st" and "renderedSuggestion st = suggestion st"
    and "renderedInputValue st = inputValue st" and "inputFocused st \<longrightarrow> showInput st"
    and "\<not> toggleEffect st"
proof -
  show a: "renderedValue st = userCategory st"
    using runEffects_rendered(1) [of st] assms by simp
  show b: "renderedSuggestion st = suggestion st"
    using runEffects_rendered(2) [of st] assms by simp
  show c: "renderedInputValue st = inputValue st"
    using runEffects_rendered(3) [of st] assms by simp
  show "inputFocused st \<longrightarrow> showInput st"
    using runEffects_rendered(4) [of st] unfolding assms by blast
  show "\<not> toggleEffect st"
    using b c by (simp add: toggleEffect_def)
qed

lemma truthy_orEmpty: "truthy x \<Longrightarrow> orEmpty x \<noteq> []"
  by (cases x) simp_all

lemma runEffects_emptyValueEmptyInput:
  assumes "emptyValueEmptyInput st"
  shows "emptyValueEmptyInput (runEffects st)"
proof (cases "initializeEffect st")
  case True
  then have "userCategory (runEffects st) \<noteq> []"
    by (simp add: runEffects_cells initializeEffect_def truthy_orEmpty)
  then show ?thesis by (simp add: emptyValueEmptyInput_def)
next
  case False
  show ?thesis
    unfolding emptyValueEmptyInput_def
  proof
    assume "userCategory (runEffects st) = []"
    then have v: "userCategory st = []" using False by (simp add: runEffects_cells)
    then have i: "inputValue st = []" using assms by (simp add: emptyValueEmptyInput_def)
    then have "\<not> syncEffect st" using v by (simp add: syncEffect_def)
    then show "inputValue (runEffects st) = []" using False i by (simp add: runEffects_cells)
  qed
qed

lemma runEffects_toggle_or_hidden:
  assumes "toggleEffect st \<or> hiddenWhenNothing st"
  shows "toggleEffect (runEffects st) \<or> hiddenWhenNothing (runEffects st)"
proof (cases "inputValue (runEffects st) = inputValue st")
  case False
  then show ?thesis
    by (simp add: toggleEffect_def runEffects_rendered)
next
  case same: True
  have "hiddenWhenNothing (runEffects st)"
  proof (cases "toggleEffect st")
    case True
    then have "showInput (runEffects st) = inputShown st" by (simp add: runEffects_cells)
    then show ?thesis
      using same by (simp add: hiddenWhenNothing_def inputShown_def runEffects_suggestion)
  next
    case False
    then have "showInput (runEffects st) = showInput st" by (simp add: runEffects_cells)
    moreover have "hiddenWhenNothing st" using False assms by simp
    ultimately show ?thesis
      using same by (simp add: hiddenWhenNothing_def runEffects_suggestion)
  qed
  then show ?thesis ..
qed

lemma settle_invariant:
  assumes "emptyValueEmptyInput st" and "toggleEffect st \<or> hiddenWhenNothing st"
  shows "toolbarInvariant (settle st)"
proof -
  have s: "runEffects (settle st) = settle st" by (rule settle_settled)
  have e: "emptyValueEmptyInput (settle st)"
    unfolding settle_three using assms(1) by (intro runEffects_emptyValueEmptyInput)
  have "toggleEffect (settle st) \<or> hiddenWhenNothing (settle st)"
    unfolding settle_three using assms(2) by (intro runEffects_toggle_or_hidden)
  then have "hiddenWhenNothing (settle st)"
    using settled_rendered(5) [OF s] by simp
  with s e show ?thesis by (simp add: toolbarInvariant_def)
qed

lemma handler_emptyValueEmptyInput:
  "emptyValueEmptyInput st \<Longrightarrow> emptyValueEmptyInput (handler ev st)"
proof (cases ev)
  case (ClipDataEmitted payload)
  then show "emptyValueEmptyInput st \<Longrightarrow> ?thesis"
    by (auto simp add: emptyValueEmptyInput_def onClipData_def Let_def dest: truthy_orEmpty)
next
  case (KeyPressed key shiftKey)
  then show "emptyValueEmptyInput st \<Longrightarrow> ?thesis"
    by (auto simp add: emptyValueEmptyInput_def inputKeyDown_def handleKeyDown_def
        handleInputBlur_def handleSave_def handleCancel_def split: option.splits)
next
  case (SubmitSettled response)
  then show "emptyValueEmptyInput st \<Longrightarrow> ?thesis"
    by (cases response) (simp_all add: emptyValueEmptyInput_def saveSettled_def)
qed (simp_all add: emptyValueEmptyInput_def handleSave_def handleCancel_def
    handleBadgeClick_def handleInputChange_def handleInputBlur_def)

lemma settled_not_initialize: "runEffects st = st \<Longrightarrow> \<not> initializeEffect st"
  using runEffects_initialized [of st] by simp

lemma settled_focus:
  assumes "runEffects st = st"
  shows "runEffects (st\<lparr>inputFocused := showInput st\<rparr>) = st\<lparr>inputFocused := showInput st\<rparr>"
proof -
  let ?st = "st\<lparr>inputFocused := showInput st\<rparr>"
  note r = settled_rendered [OF assms]
  have g: "suggestion ?st = suggestion st" by (simp add: suggestion_def)
  have i: "\<not> initializeEffect ?st"
    using settled_not_initialize [OF assms] by (simp add: initializeEffect_def g)
  have y: "\<not> syncEffect ?st" using r(1) by (simp add: syncEffect_def)
  have t: "\<not> toggleEffect ?st" using r(2,3) by (simp add: toggleEffect_def g)
  show ?thesis
    by (rule toolbar.equality) (simp_all add: runEffects_def i y t r g)
qed

lemma handler_toggle_or_hidden:
  assumes "toolbarInvariant st" and "canOccur ev st"
  shows "toggleEffect (handler ev st) \<or> hiddenWhenNothing (handler ev st)"
proof -
  have s: "runEffects st = st" and h: "hiddenWhenNothing st"
    using assms(1) by (simp_all add: toolbarInvariant_def)
  note r = settled_rendered [OF s]
  show ?thesis
  proof (cases "suggestion (handler ev st) = suggestion st
                \<and> inputValue (handler ev st) = inputValue st")
    case False
    moreover have "renderedSuggestion (handler ev st) = renderedSuggestion st"
      and "renderedInputValue (handler ev st) = renderedInputValue st"
      by (cases ev; simp add: onClipData_def Let_def handleSave_def
          handleCancel_def handleBadgeClick_def handleInputChange_def inputKeyDown_def
          handleKeyDown_def handleInputBlur_def saveSettled_def
          split: option.splits sum.splits)+
    ultimately show ?thesis using r by (auto simp add: toggleEffect_def)
  next
    case True
    have "showInput (handler ev st) \<longrightarrow> showInput st \<or> truthy (suggestion st)"
      using assms(2)
      by (cases ev; simp add: onClipData_def Let_def handleSave_def
          handleCancel_def handleBadgeClick_def handleInputChange_def inputKeyDown_def
          handleKeyDown_def handleInputBlur_def saveSettled_def
          split: option.splits sum.splits)
    then have "hiddenWhenNothing (handler ev st)"
      using True h by (auto simp add: hiddenWhenNothing_def)
    then show ?thesis ..
  qed
qed

lemma step_invariant:
  assumes "toolbarInvariant st"
  shows "toolbarInvariant (step ev st)"
proof (cases "canOccur ev st")
  case False
  then show ?thesis using assms by (simp add: step_def)
next
  case True
  have e: "emptyValueEmptyInput (handler ev st)"
    using assms by (simp add: toolbarInvariant_def handler_emptyValueEmptyInput)
  have i: "toolbarInvariant (settle (handler ev st))"
    using e handler_toggle_or_hidden [OF assms True] by (rule settle_invariant)
  show ?thesis
  proof (cases "ev = BadgeClicked")
    case False
    then show ?thesis using True i by (simp add: step_def Let_def)
  next
    case b: True
    let ?st1 = "settle (handler ev st)"
    have "runEffects (?st1\<lparr>inputFocused := showInput ?st1\<rparr>) = ?st1\<lparr>inputFocused := showInput ?st1\<rparr>"
      by (rule settled_focus) (rule settle_settled)
    moreover have "emptyValueEmptyInput (?st1\<lparr>inputFocused := showInput ?st1\<rparr>)"
      using i by (simp add: toolbarInvariant_def emptyValueEmptyInput_def)
    moreover have "hiddenWhenNothing (?st1\<lparr>inputFocused := showInput ?st1\<rparr>)"
      using i by (simp add: toolbarInvariant_def hiddenWhenNothing_def suggestion_def)
    ultimately have "toolbarInvariant (?st1\<lparr>inputFocused := showInput ?st1\<rparr>)"
      by (simp add: toolbarInvariant_def)
    then show ?thesis using True b by (simp add: step_def Let_def)
  qed
qed

lemma initial_invariant: "toolbarInvariant initialToolbar"
  by (simp add: toolbarInvariant_def emptyValueEmptyInput_def hiddenWhenNothing_def
      initialToolbar_def runEffects_def syncEffect_def initializeEffect_def toggleEffect_def
      suggestion_def)

lemma run_snoc: "run (evs @ [ev]) = step ev (run evs)"
  by (simp add: run_def)

lemma run_invariant: "toolbarInvariant (run evs)"
proof (induction evs rule: rev_induct)
  case Nil
  show ?case by (simp add: run_def initial_invariant)
next
  case (snoc ev evs)
  then show ?case by (simp add: run_snoc step_invariant)
qed

lemma no_category_no_submit:
  assumes "toolbarInvariant st" and "\<not> truthy (suggestion st)" and "userCategory st = []"
  shows "submitted (step ev st) = submitted st"
proof -
  have "inputValue st = []"
    using assms(1,3) by (simp add: toolbarInvariant_def emptyValueEmptyInput_def)
  then have h: "\<not> showInput st"
    using assms(1,2) by (simp add: toolbarInvariant_def hiddenWhenNothing_def)
  show ?thesis
  proof (cases ev)
    case SaveClicked
    then show ?thesis using assms(2) by (simp add: step_def saveButtonDisabled_def)
  next
    case (KeyPressed key shiftKey)
    then show ?thesis using h by (simp add: step_def)
  next
    case (SubmitSettled response)
    then show ?thesis
      by (cases response)
        (simp_all add: step_def Let_def submitted_def settle_fixed saveSettled_def)
  qed (simp_all add: step_def Let_def submitted_def settle_fixed onClipData_def
      handleCancel_def handleBadgeClick_def handleInputChange_def handleInputBlur_def)
qed

subsection \<open>Saving\<close>

lemma enter_is_handleSave: "inputKeyDown ''Enter'' False st = handleSave st"
  by (simp add: inputKeyDown_def handleKeyDown_def)

text \<open>
  What a save submits, in terms of the cell \<open>userCategory\<close>: whenever the save button is
  clicked or Enter is pressed in the text field (without Shift), and the toolbar lets the
  event through, one \<open>submit_clip\<close> is invoked, with the trimmed \<open>userCategory\<close> if that is
  not empty, else the non-empty suggestion if there is one, else \<open>Other\<close>. When the
  suggestion \<open>url\<close> has arrived and the user saves without editing, the category is
  \<open>url\<close>.
\<close>

lemma save_submits_userCategory:
  "ev = SaveClicked \<or> ev = KeyPressed ''Enter'' False \<Longrightarrow> canOccur ev st \<Longrightarrow>
   invoked (step ev st) =
     invoked st @
       [SubmitClip
          (if trim (userCategory st) \<noteq> [] then trim (userCategory st)
           else if truthy (suggestion st) then orEmpty (suggestion st)
           else ''Other'')
          (map_option clip (clipData st))]"
  by (auto simp add: invoked_step enter_is_handleSave handleSave_def submittedCategory_def)

lemma untouched_suggestion_is_submitted:
  "invoked (run [ClipDataEmitted urlContext, SaveClicked]) =
     [SubmitClip ''url'' (Some \<lparr>Text = Some ''https://example.com'', Image = None\<rparr>)]"
  by code_simp

text \<open>
  Claim C1 says that every save submits what the user typed, trimmed, whenever that is
  not empty, and the suggestion only otherwise. \<open>handleSave\<close> reads the cell
  \<open>userCategory\<close>, and the \<open>clip-data\<close> listener overwrites that cell with every non-empty
  suggestion (the stale closure shown again further below). After the suggestion \<open>url\<close> the user opens the text
  field and types \<open>notes\<close>; a second \<open>clip-data\<close> event for the same clip suggests
  \<open>reference\<close>. The focused text field still holds \<open>notes\<close>, whose trim is not empty, and
  Enter submits \<open>reference\<close>.
\<close>

theorem typed_category_not_submitted:
  "inputValue (run [ClipDataEmitted urlContext, BadgeClicked, InputChanged ''notes'',
        ClipDataEmitted resuggestedContext]) = ''notes''
   \<and> showInput (run [ClipDataEmitted urlContext, BadgeClicked, InputChanged ''notes'',
        ClipDataEmitted resuggestedContext])
   \<and> trim ''notes'' = ''notes''
   \<and> suggestion (run [ClipDataEmitted urlContext, BadgeClicked, InputChanged ''notes'',
        ClipDataEmitted resuggestedContext]) = Some ''reference''
   \<and> canOccur (KeyPressed ''Enter'' False)
        (run [ClipDataEmitted urlContext, BadgeClicked, InputChanged ''notes'',
          ClipDataEmitted resuggestedContext])
   \<and> invoked (step (KeyPressed ''Enter'' False)
        (run [ClipDataEmitted urlContext, BadgeClicked, InputChanged ''notes'',
          ClipDataEmitted resuggestedContext]))
      = [SubmitClip ''reference'' (Some \<lparr>Text = Some ''https://example.com'', Image = None\<rparr>)]"
  by code_simp

text \<open>
  While there is no suggestion and \<open>userCategory\<close> is the empty string, no event submits
  a clip: the save button is disabled and the text field is not rendered.
\<close>

lemma no_submit_while_nothing_entered:
  "\<not> truthy (suggestion (run evs)) \<Longrightarrow> userCategory (run evs) = [] \<Longrightarrow>
   submitted (step ev (run evs)) = submitted (run evs)"
  using run_invariant by (rule no_category_no_submit)

text \<open>
  Claim C2 says that no button and no accelerator can submit until a suggestion exists or
  the user has typed a category, so that the default is never submitted by accident. The
  save button is disabled while there is no suggestion; \<open>handleKeyDown\<close> has no such
  guard, and the text field stays rendered as long as it holds any text. Two states
  without a suggestion show it; both are reached when, after the suggestion \<open>url\<close>, a
  \<open>clip-data\<close> event arrives whose suggestion is still awaited. In the first the user had
  typed one space: the save button is disabled, and Enter submits the default \<open>Other\<close>.
  In the second the user has typed nothing and the text field holds the \<open>url\<close> of the
  earlier suggestion: the save button is disabled, and Enter submits \<open>url\<close> for the new
  clip.
\<close>

theorem enter_submits_without_suggestion:
  "\<not> truthy (suggestion (run [ClipDataEmitted urlContext, BadgeClicked, InputChanged '' '',
        ClipDataEmitted pendingContext]))
   \<and> saveButtonDisabled (run [ClipDataEmitted urlContext, BadgeClicked, InputChanged '' '',
        ClipDataEmitted pendingContext])
   \<and> trim (userCategory (run [ClipDataEmitted urlContext, BadgeClicked, InputChanged '' '',
        ClipDataEmitted pendingContext])) = []
   \<and> submitted (run [ClipDataEmitted urlContext, BadgeClicked, InputChanged '' '',
        ClipDataEmitted pendingContext]) = []
   \<and> submitted (step (KeyPressed ''Enter'' False)
        (run [ClipDataEmitted urlContext, BadgeClicked, InputChanged '' '',
          ClipDataEmitted pendingContext]))
      = [SubmitClip ''Other'' (Some \<lparr>Text = Some ''x = 1'', Image = None\<rparr>)]
   \<and> \<not> truthy (suggestion (run [ClipDataEmitted urlContext, ClipDataEmitted pendingContext,
        InputFocusGained]))
   \<and> saveButtonDisabled (run [ClipDataEmitted urlContext, ClipDataEmitted pendingContext,
        InputFocusGained])
   \<and> submitted (run [ClipDataEmitted urlContext, ClipDataEmitted pendingContext,
        InputFocusGained]) = []
   \<and> submitted (step (KeyPressed ''Enter'' False)
        (run [ClipDataEmitted urlContext, ClipDataEmitted pendingContext, InputFocusGained]))
      = [SubmitClip ''url'' (Some \<lparr>Text = Some ''x = 1'', Image = None\<rparr>)]"
  by code_simp

text \<open>
  The save button cannot submit while a save is pending: it is disabled as long as
  \<open>isSaving\<close> holds.
\<close>

lemma save_button_guarded: "isSaving st \<Longrightarrow> step SaveClicked st = st"
  by (simp add: step_def saveButtonDisabled_def)

text \<open>
  Claim C3 says that once a save has been initiated and has not completed, no second
  save can be submitted, by the button or by Enter. The button is guarded by \<open>isSaving\<close>;
  \<open>handleKeyDown\<close> is not. With the suggestion \<open>url\<close> shown, the badge clicked and Enter
  pressed twice, the first press leaves one \<open>submit_clip\<close> pending with \<open>isSaving\<close> set,
  and the second press submits again.
\<close>

theorem enter_twice_submits_twice:
  "isSaving (run [ClipDataEmitted urlContext, BadgeClicked, KeyPressed ''Enter'' False])
   \<and> pendingSaves (run [ClipDataEmitted urlContext, BadgeClicked, KeyPressed ''Enter'' False]) = 1
   \<and> submitted (run [ClipDataEmitted urlContext, BadgeClicked, KeyPressed ''Enter'' False,
        KeyPressed ''Enter'' False])
      = [SubmitClip ''url'' (Some \<lparr>Text = Some ''https://example.com'', Image = None\<rparr>),
         SubmitClip ''url'' (Some \<lparr>Text = Some ''https://example.com'', Image = None\<rparr>)]
   \<and> pendingSaves (run [ClipDataEmitted urlContext, BadgeClicked, KeyPressed ''Enter'' False,
        KeyPressed ''Enter'' False]) = 2"
  by code_simp

subsection \<open>The suggestion and the typed category\<close>

text \<open>
  Claim C4 says that an arriving suggestion fills the category only if the user has not
  typed one, and that a typed category is kept. The listener tests the \<open>userCategory\<close> of
  the first render, which is empty, so every non-empty suggestion replaces
  \<open>userCategory\<close>. After the suggestion \<open>url\<close> the user opens the text field and types
  \<open>notes\<close>; a second \<open>clip-data\<close> event for the same clip then suggests \<open>reference\<close>:
  \<open>userCategory\<close> becomes \<open>reference\<close> while the focused text field still shows \<open>notes\<close>,
  Enter submits \<open>reference\<close>, and a text field that has lost the focus shows \<open>reference\<close>
  as well.
\<close>

theorem later_suggestion_replaces_typed_category:
  "userCategory (run [ClipDataEmitted urlContext, BadgeClicked, InputChanged ''notes''])
     = ''notes''
   \<and> userCategory (run [ClipDataEmitted urlContext, BadgeClicked, InputChanged ''notes'',
        ClipDataEmitted resuggestedContext]) = ''reference''
   \<and> inputValue (run [ClipDataEmitted urlContext, BadgeClicked, InputChanged ''notes'',
        ClipDataEmitted resuggestedContext]) = ''notes''
   \<and> submitted (run [ClipDataEmitted urlContext, BadgeClicked, InputChanged ''notes'',
        ClipDataEmitted resuggestedContext, KeyPressed ''Enter'' False])
      = [SubmitClip ''reference'' (Some \<lparr>Text = Some ''https://example.com'', Image = None\<rparr>)]
   \<and> inputValue (run [ClipDataEmitted urlContext, BadgeClicked, InputChanged ''notes'',
        InputBlurred, ClipDataEmitted resuggestedContext]) = ''reference''"
  by code_simp

subsection \<open>Cancelling\<close>

lemma escape_in_input:
  "inputKeyDown ''Escape'' shiftKey st =
     (if truthy (suggestion st) \<and> Some (inputValue st) = suggestion st
      then st\<lparr>showInput := False, inputFocused := False\<rparr>
      else handleCancel st)"
  by (simp add: inputKeyDown_def handleKeyDown_def handleInputBlur_def suggestion_def)

text \<open>
  Claim C5. In every state, the cancel button and the Escape key invoke at most
  \<open>close_toolbar_window\<close>: no \<open>submit_clip\<close> is added, the captured clip and the pending
  saves are as before.
\<close>

theorem cancel_persists_nothing:
  "ev = CancelClicked \<or> ev = KeyPressed ''Escape'' shiftKey \<Longrightarrow>
   submitted (step ev st) = submitted st
   \<and> (invoked (step ev st) = invoked st
        \<or> invoked (step ev st) = invoked st @ [CloseToolbarWindow])
   \<and> clipData (step ev st) = clipData st
   \<and> pendingSaves (step ev st) = pendingSaves st"
  by (auto simp add: submitted_def step_def Let_def settle_fixed escape_in_input
      handleCancel_def split: if_splits)

theorem cancel_persists_nothing_witness:
  "invoked (step CancelClicked initialToolbar) = [CloseToolbarWindow]
   \<and> submitted (step CancelClicked initialToolbar) = []
   \<and> invoked (step (KeyPressed ''Escape'' False)
        (run [ClipDataEmitted urlContext, BadgeClicked, InputChanged ''notes'']))
      = [CloseToolbarWindow]
   \<and> submitted (step (KeyPressed ''Escape'' False)
        (run [ClipDataEmitted urlContext, BadgeClicked, InputChanged ''notes''])) = []"
proof -
  let ?st = "run [ClipDataEmitted urlContext, BadgeClicked, InputChanged ''notes'']"
  have a: "invoked (step CancelClicked initialToolbar) = [CloseToolbarWindow]" by code_simp
  have b: "invoked (step (KeyPressed ''Escape'' False) ?st) = [CloseToolbarWindow]" by code_simp
  have c: "submitted initialToolbar = []" by code_simp
  have d: "submitted ?st = []" by code_simp
  from cancel_persists_nothing [of CancelClicked False initialToolbar] c
  have e: "submitted (step CancelClicked initialToolbar) = []" by simp
  from cancel_persists_nothing [of "KeyPressed ''Escape'' False" False ?st] d
  have f: "submitted (step (KeyPressed ''Escape'' False) ?st) = []" by simp
  from a b e f show ?thesis by blast
qed

end
